theory Spec2Isabelle
  imports Main
begin

section \<open>Python values\<close>

text \<open>
  A Python \<open>str\<close> is a sequence of Unicode code points; \<open>len\<close> and slicing count
  code points. It is modelled as a list of code points (natural numbers), so that every
  Python string is covered; \<open>lit\<close> embeds an ASCII literal.
\<close>

type_synonym pystr = "nat list"

definition lit :: "string \<Rightarrow> pystr" where
  "lit s = map of_char s"

text \<open>\<open>str(n)\<close> of a Python int: the decimal digits, with a minus sign below zero.\<close>

function digits :: "nat \<Rightarrow> pystr" where
  "digits n = (if n < 10 then [48 + n] else digits (n div 10) @ [48 + n mod 10])"
  by pat_completeness auto
termination
  by (relation "measure id") auto

definition str_int :: "int \<Rightarrow> pystr" where
  "str_int i = (if i < 0 then 45 # digits (nat (- i)) else digits (nat i))"

text \<open>
  Exceptions are values: the class that was raised and \<open>str(e)\<close>. The classes are the
  ones the modelled functions raise, catch or let through.
\<close>

datatype exn_class =
    TagError_class
  | TagCharacterLimitReached_class
  | BadArgument_class
  | UserFeedbackCheckFailure_class
  | IndexError_class
  | AssertionError_class
  | HTTPException_class
  | Forbidden_class
  | RecursionError_class
  | ValueError_class
  | TypeError_class
  | Other_class

datatype exn = Exn (exn_cls: exn_class) (exn_str: pystr)

text \<open>\<open>except TagError\<close> catches the class and its subclasses.\<close>

fun isinstance_TagError :: "exn \<Rightarrow> bool" where
  "isinstance_TagError (Exn c m) = (c = TagError_class \<or> c = TagCharacterLimitReached_class)"

fun isinstance_BadArgument :: "exn \<Rightarrow> bool" where
  "isinstance_BadArgument (Exn c m) = (c = BadArgument_class)"

text \<open>\<open>except discord.HTTPException\<close>: \<open>Forbidden\<close> is a subclass of it.\<close>

fun isinstance_HTTPException :: "exn \<Rightarrow> bool" where
  "isinstance_HTTPException (Exn c m) = (c = HTTPException_class \<or> c = Forbidden_class)"

text \<open>\<open>xs[0]\<close> raises \<open>IndexError\<close> on an empty list.\<close>

definition getitem0 :: "'a list \<Rightarrow> exn + 'a" where
  "getitem0 xs =
     (case xs of [] \<Rightarrow> Inl (Exn IndexError_class (lit ''list index out of range''))
      | x # _ \<Rightarrow> Inr x)"

text \<open>\<open>s.replace(old, new)\<close> for one-character \<open>old\<close> and \<open>new\<close>.\<close>

definition replace_char :: "nat \<Rightarrow> nat \<Rightarrow> pystr \<Rightarrow> pystr" where
  "replace_char old new s = map (\<lambda>c. if c = old then new else c) s"


section \<open>boostutils/\_tagscript.py\<close>

definition TAGSCRIPT_LIMIT :: int where
  "TAGSCRIPT_LIMIT = 10000"

text \<open>
  The engine's \<open>Response\<close>, as \<open>process_tagscript\<close> and \<open>tag_run\<close> read it: the body
  (a string, or \<open>None\<close>), the actions, a dict from action names to values, and the
  variables, a dict from names to adapters. The classes of action values and of adapters
  belong to the engine library, so they are type parameters.
\<close>

record ('a, 'v) Response =
  body :: "pystr option"
  actions :: "pystr \<rightharpoonup> 'a"
  variables :: "pystr \<rightharpoonup> 'v"

text \<open>A value of the keyword dict that \<open>process_tagscript\<close> builds.\<close>

datatype 'a kwarg = Str pystr | Action 'a

text \<open>
  \<open>process_tagscript\<close>. \<open>engine.process\<close> is a call into the TagScriptEngine library:
  it is the parameter \<open>engine_process\<close>, and an exception it raises passes through.
  \<open>truthy\<close> is Python's truth value of an action value (the walrus test
  \<open>if embed := output.actions.get("embed")\<close>); \<open>if output.body\<close> is false for \<open>None\<close>
  and for the empty string.
\<close>

definition process_tagscript ::
  "(pystr \<Rightarrow> 's \<Rightarrow> exn + ('a, 'v) Response) \<Rightarrow> ('a \<Rightarrow> bool) \<Rightarrow> pystr \<Rightarrow> 's \<Rightarrow> exn + (pystr \<rightharpoonup> 'a kwarg)"
where
  "process_tagscript engine_process truthy content seed_variables =
     (case engine_process content seed_variables of
        Inl e \<Rightarrow> Inl e
      | Inr output \<Rightarrow>
          (let kwargs = Map.empty;
               kwargs = (case body output of
                           None \<Rightarrow> kwargs
                         | Some b \<Rightarrow> if b \<noteq> [] then kwargs(lit ''content'' \<mapsto> Str (take 2000 b))
                                     else kwargs);
               kwargs = (case actions output (lit ''embed'') of
                           None \<Rightarrow> kwargs
                         | Some emb \<Rightarrow> if truthy emb then kwargs(lit ''embed'' \<mapsto> Action emb)
                                       else kwargs)
           in Inr kwargs))"

text \<open>
  \<open>TagCharacterLimitReached(limit, length)\<close>: the constructor passes one formatted
  message to \<open>Exception.__init__\<close>, so \<open>str(e)\<close> is that message. \<open>humanize_number\<close>
  is imported from the bot framework and is a parameter.
\<close>

definition TagCharacterLimitReached :: "(int \<Rightarrow> pystr) \<Rightarrow> int \<Rightarrow> int \<Rightarrow> exn" where
  "TagCharacterLimitReached humanize_number limit length' =
     Exn TagCharacterLimitReached_class
       (lit ''TagScript cannot be longer than '' @ humanize_number limit @ lit '' (**''
          @ humanize_number length' @ lit ''**).'')"

text \<open>
  \<open>TagscriptConverter.convert\<close>. \<open>ctx.cog.validate_tagscript\<close> is supplied by the cog
  and is a parameter: it returns, or raises. Only a \<open>TagError\<close> is caught; any other
  exception leaves \<open>convert\<close> as it is.
\<close>

definition TagscriptConverter_convert :: "(pystr \<Rightarrow> exn + 'r) \<Rightarrow> pystr \<Rightarrow> exn + pystr" where
  "TagscriptConverter_convert validate_tagscript argument =
     (case validate_tagscript argument of
        Inl e \<Rightarrow> if isinstance_TagError e then Inl (Exn BadArgument_class (exn_str e))
                 else Inl e
      | Inr _ \<Rightarrow> Inr argument)"


section \<open>tags/mixins/commands.py\<close>

subsection \<open>generate\_tag\_list\<close>

text \<open>
  A \<open>Tag\<close> as \<open>generate_tag_list\<close> reads it: its aliases, its tagscript, and the
  string that \<open>str(tag)\<close> gives (the f-string formats the tag itself; the class is
  defined in another module).
\<close>

record Tag =
  aliases :: "pystr list"
  tagscript :: pystr
  tag_str :: pystr

text \<open>
  The loop of \<open>generate_tag_list\<close>, with the two lists it extends as accumulators.
  \<open>discord.utils.escape_markdown\<close> is a parameter.
\<close>

fun generate_tag_list_loop ::
  "(pystr \<Rightarrow> pystr) \<Rightarrow> Tag list \<Rightarrow> pystr list \<Rightarrow> pystr list \<Rightarrow> pystr list \<times> pystr list"
where
  "generate_tag_list_loop escape_markdown [] als description = (als, description)"
| "generate_tag_list_loop escape_markdown (tag # tags) als description =
     (let als = als @ aliases tag;
          ts = replace_char 10 32 (tagscript tag);
          ts = (if length ts > 23 then take 20 ts @ lit ''...'' else ts);
          ts = escape_markdown ts;
          description = description @ [lit ''`'' @ tag_str tag @ lit ''` - '' @ ts]
      in generate_tag_list_loop escape_markdown tags als description)"

definition generate_tag_list :: "(pystr \<Rightarrow> pystr) \<Rightarrow> Tag list \<Rightarrow> (pystr \<rightharpoonup> pystr list)" where
  "generate_tag_list escape_markdown tags =
     (case generate_tag_list_loop escape_markdown tags [] [] of
        (als, description) \<Rightarrow>
          [lit ''aliases'' \<mapsto> als, lit ''description'' \<mapsto> description])"

text \<open>
  The preview of one tagscript, stated on its own: newlines become spaces; a text
  longer than 23 characters is cut to its first 20 characters followed by three dots; a
  shorter one is kept whole. The loop above is compared with it.
\<close>

definition tagscript_preview :: "pystr \<Rightarrow> pystr" where
  "tagscript_preview s =
     (if length (replace_char 10 32 s) > 23 then take 20 (replace_char 10 32 s) @ lit ''...''
      else replace_char 10 32 s)"

subsection \<open>invoketag\<close>

text \<open>
  \<open>response: Optional[bool]\<close> is \<open>None\<close>, \<open>False\<close> or \<open>True\<close>. \<open>a or b\<close> is \<open>a\<close> when
  \<open>a\<close> is truthy and \<open>b\<close> otherwise.
\<close>

definition py_or :: "bool option \<Rightarrow> bool option \<Rightarrow> bool option" where
  "py_or a b = (if a = Some True then a else b)"

text \<open>What \<open>invoketag\<close> does: it sends the lookup's error, or processes the tag.\<close>

datatype 'tag invoke_effect =
    CtxSend exn
  | ProcessTag 'tag pystr

text \<open>
  \<open>invoketag\<close>. The tag lookup \<open>TagConverter(check_global=True).convert\<close> is a
  parameter; \<open>BadArgument\<close> is caught, any other exception passes through. The seed of
  \<open>process_tag\<close> is \<open>{"args": StringAdapter(args)}\<close>, recorded by \<open>args\<close>.
\<close>

definition invoketag ::
  "(pystr \<Rightarrow> exn + 'tag) \<Rightarrow> bool option \<Rightarrow> pystr \<Rightarrow> pystr \<Rightarrow> exn + 'tag invoke_effect list"
where
  "invoketag tag_convert response tag_name args =
     (let response = py_or response (Some True)
      in case tag_convert tag_name of
           Inl e \<Rightarrow>
             if isinstance_BadArgument e
             then (if response = Some True then Inr [CtxSend e] else Inr [])
             else Inl e
         | Inr tag \<Rightarrow> Inr [ProcessTag tag args])"

subsection \<open>tag run\<close>

text \<open>\<open>content = output.body[:2000] if output.body else None\<close> in \<open>tag_run\<close>.\<close>

definition tag_run_content :: "('a, 'v) Response \<Rightarrow> pystr option" where
  "tag_run_content output =
     (case body output of
        None \<Rightarrow> None
      | Some b \<Rightarrow> if b \<noteq> [] then Some (take 2000 b) else None)"

subsection \<open>tag restore, tag global restore\<close>

record attachment =
  filename :: pystr
  payload :: "nat list"

text \<open>
  The precondition of both restore commands,
  \<open>not msg.attachments and not msg.attachments[0].filename == expected\<close>:
  \<open>and\<close> evaluates its right operand only when the left one is true, that is, when
  the list is empty, and there \<open>msg.attachments[0]\<close> raises \<open>IndexError\<close>.
\<close>

definition backup_precondition :: "pystr \<Rightarrow> attachment list \<Rightarrow> exn + bool" where
  "backup_precondition expected attachments =
     (if attachments = [] then
        (case getitem0 attachments of
           Inl e \<Rightarrow> Inl e
         | Inr a \<Rightarrow> Inr (\<not> (filename a = expected)))
      else Inr False)"

definition backup_failure :: exn where
  "backup_failure =
     Exn UserFeedbackCheckFailure_class
       (lit ''You must pass a message that has a backup file attachment sent by me.'')"

text \<open>
  After the check, both commands read the first attachment and parse it with
  \<open>orjson.loads\<close>; the result is what they store in the configuration. Reading and
  parsing are parameters and may raise.
\<close>

definition load_backup ::
  "(attachment \<Rightarrow> exn + nat list) \<Rightarrow> (nat list \<Rightarrow> exn + 'j) \<Rightarrow> attachment list \<Rightarrow> exn + 'j"
where
  "load_backup read loads attachments =
     (case getitem0 attachments of
        Inl e \<Rightarrow> Inl e
      | Inr a \<Rightarrow> (case read a of Inl e \<Rightarrow> Inl e | Inr raw \<Rightarrow> loads raw))"

text \<open>
  \<open>tag_restore\<close>, up to the value it stores in the guild's configuration.
  \<open>ctx.guild\<close> is \<open>None\<close> outside a guild, where the \<open>assert\<close> fails.
\<close>

definition tag_restore ::
  "(attachment \<Rightarrow> exn + nat list) \<Rightarrow> (nat list \<Rightarrow> exn + 'j) \<Rightarrow> int option \<Rightarrow> attachment list \<Rightarrow> exn + 'j"
where
  "tag_restore read loads guild attachments =
     (case guild of
        None \<Rightarrow> Inl (Exn AssertionError_class [])
      | Some guild_id \<Rightarrow>
          (case backup_precondition
                  (lit ''tag-backup-'' @ str_int guild_id @ lit ''.json'') attachments of
             Inl e \<Rightarrow> Inl e
           | Inr True \<Rightarrow> Inl backup_failure
           | Inr False \<Rightarrow> load_backup read loads attachments))"

text \<open>\<open>tag_global_restore\<close>, up to the value it stores in the global configuration.\<close>

definition tag_global_restore ::
  "(attachment \<Rightarrow> exn + nat list) \<Rightarrow> (nat list \<Rightarrow> exn + 'j) \<Rightarrow> attachment list \<Rightarrow> exn + 'j"
where
  "tag_global_restore read loads attachments =
     (case backup_precondition (lit ''global-tag-backup.json'') attachments of
        Inl e \<Rightarrow> Inl e
      | Inr True \<Rightarrow> Inl backup_failure
      | Inr False \<Rightarrow> load_backup read loads attachments)"


section \<open>applications/pipes/listeners.py\<close>

text \<open>
  \<open>on_application_applied\<close> asks the questions of an application one by one in the
  user's direct messages. The platform is the environment: what each awaited call gives
  back (a sent message, a reply, a timeout, an exception) is an input of the model, and
  what the handler sends is recorded as a list of effects.
\<close>

text \<open>The type of a question after \<open>type.lower()\<close>.\<close>

datatype qtype = Text | Choices | Boolean | OtherType

record question =
  q_text :: pystr
  q_type :: qtype
  q_required :: bool
  q_choices :: "pystr list"

text \<open>\<open>Answer(question=question.text, type=type.lower(), answer=content)\<close>.\<close>

record Answer =
  a_question :: pystr
  a_type :: qtype
  a_answer :: pystr

text \<open>
  The calls the handler makes, in order. \<open>SendQuestion idx\<close> is the direct message
  with the embed and the view of the question at index \<open>idx\<close>; \<open>WaitForMessage t\<close> is
  \<open>interaction.client.wait_for("message", check=..., timeout=t)\<close> with \<open>t\<close> in seconds;
  \<open>UserSend\<close> is a direct message whose \<open>HTTPException\<close> is suppressed;
  \<open>FollowupSend\<close> is \<open>interaction.followup.send(text, ephemeral=True)\<close>;
  \<open>EchoAnswer n content\<close> is the message "Your answer for question no. n is - ...".
\<close>

datatype effect =
    SendIntro
  | SendQuestion nat
  | WaitForMessage nat
  | ViewWait
  | ViewOnTimeout
  | UserSend pystr
  | FollowupSend pystr
  | EchoAnswer nat pystr

text \<open>
  What the platform does while one question is asked: whether sending the question
  raises; for a text question the content of the reply, or \<open>None\<close> when \<open>wait_for\<close>
  raises \<open>asyncio.TimeoutError\<close>; the view's \<open>cancel\<close> and \<open>skip\<close> flags after the wait;
  for a choice question what \<open>choice.wait()\<close> returns and \<open>choice.answer\<close> (\<open>None\<close> for
  \<open>MISSING\<close>); for a boolean question \<open>confirm.result\<close>; and whether sending the echo of
  the answer raises.
\<close>

record outcome =
  ask_raises :: "exn option"
  reply :: "pystr option"
  cancel :: bool
  skip :: bool
  wait_timed_out :: bool
  choice_answer :: "pystr option"
  confirm_result :: "bool option"
  echo_raises :: "exn option"

text \<open>
  After a question the loop goes on (\<open>Next\<close>) or the handler has returned
  (\<open>Returned\<close>); with it come the answers of the response in progress and the effects.
\<close>

datatype flow = Next | Returned

type_synonym progress = "flow \<times> Answer list \<times> effect list"

text \<open>
  The end of the loop body: the answer is appended to \<open>response.answers\<close>, then echoed
  to the user; an \<open>HTTPException\<close> of the echo ends the handler.
\<close>

definition record_answer ::
  "nat \<Rightarrow> question \<Rightarrow> pystr \<Rightarrow> outcome \<Rightarrow> Answer list \<Rightarrow> effect list \<Rightarrow> exn + progress"
where
  "record_answer idx q content out answers eff =
     (let answers = answers @ [\<lparr>a_question = q_text q, a_type = q_type q, a_answer = content\<rparr>];
          eff = eff @ [EchoAnswer (idx + 1) (take 1950 content)]
      in case echo_raises out of
           None \<Rightarrow> Inr (Next, answers, eff)
         | Some e \<Rightarrow>
             if isinstance_HTTPException e
             then Inr (Returned, answers, eff @ [FollowupSend (lit
               ''Something went wrong, I failed to send you a dm, please check your dm settings!'')])
             else Inl e)"

text \<open>
  The body of the loop over the questions, branch by branch as in the source: text,
  choices (with at least one choice), boolean, and \<open>continue\<close> for anything else. Only
  the text branch guards the sending of the question with \<open>try\<close>.
\<close>

definition ask_question :: "nat \<Rightarrow> question \<Rightarrow> outcome \<Rightarrow> Answer list \<Rightarrow> exn + progress" where
  "ask_question idx q out answers =
     (if q_type q = Text then
        (case ask_raises out of
           Some e \<Rightarrow>
             if isinstance_HTTPException e
             then Inr (Returned, answers,
                    [SendQuestion idx,
                     FollowupSend (lit ''Something went wrong, please try again later!'')])
             else Inl e
         | None \<Rightarrow>
             (case reply out of
                None \<Rightarrow>
                  Inr (Returned, answers,
                    [SendQuestion idx, WaitForMessage 300, ViewOnTimeout,
                     UserSend (lit ''Application timed out while waiting for your response.''),
                     FollowupSend (lit ''Application timed out.'')])
              | Some content \<Rightarrow>
                  (let eff = [SendQuestion idx, WaitForMessage 300, ViewOnTimeout]
                   in if cancel out
                      then Inr (Returned, answers,
                             eff @ [FollowupSend (lit ''Application cancelled!'')])
                      else if skip out
                      then record_answer idx q (lit ''Skipped'') out answers eff
                      else if content \<noteq> []
                      then record_answer idx q content out answers eff
                      else Inr (Returned, answers,
                             eff @ [UserSend (lit ''Something went wrong, I failed to parse your response.''),
                                    FollowupSend (lit ''Application failed, try again later.'')]))))
      else if q_type q = Choices \<and> length (q_choices q) > 0 then
        (case ask_raises out of
           Some e \<Rightarrow> Inl e
         | None \<Rightarrow>
             (let eff = [SendQuestion idx, ViewWait]
                          @ (if \<not> wait_timed_out out then [ViewOnTimeout] else [])
              in if cancel out
                 then Inr (Returned, answers,
                        eff @ [FollowupSend (lit ''Application cancelled!'')])
                 else if skip out
                 then record_answer idx q (lit ''Skipped'') out answers eff
                 else (case choice_answer out of
                         None \<Rightarrow>
                           Inr (Returned, answers,
                             eff @ [UserSend (lit ''Something went wrong, I failed to parse your response.''),
                                    FollowupSend (lit ''Application failed, try again later.'')])
                       | Some a \<Rightarrow> record_answer idx q a out answers eff)))
      else if q_type q = Boolean then
        (case ask_raises out of
           Some e \<Rightarrow> Inl e
         | None \<Rightarrow>
             (let eff = [SendQuestion idx, ViewWait]
              in if cancel out
                 then Inr (Returned, answers,
                        eff @ [ViewOnTimeout, FollowupSend (lit ''Application cancelled!'')])
                 else if skip out
                 then record_answer idx q (lit ''Skipped'') out answers (eff @ [ViewOnTimeout])
                 else (case confirm_result out of
                         None \<Rightarrow>
                           Inr (Returned, answers,
                             eff @ [ViewOnTimeout,
                                    UserSend (lit ''Application timed out while waiting for your response.''),
                                    FollowupSend (lit ''Application timed out.'')])
                       | Some False \<Rightarrow> record_answer idx q (lit ''No'') out answers eff
                       | Some True \<Rightarrow> record_answer idx q (lit ''Yes'') out answers eff)))
      else Inr (Next, answers, []))"

text \<open>
  The loop \<open>for idx, question in enumerate(app.questions)\<close>: \<open>env idx\<close> is what the
  platform does during the question at index \<open>idx\<close>. A \<open>return\<close> in the body ends the
  handler, an exception leaves it.
\<close>

fun ask_questions ::
  "nat \<Rightarrow> question list \<Rightarrow> (nat \<Rightarrow> outcome) \<Rightarrow> Answer list \<Rightarrow> exn + progress"
where
  "ask_questions idx [] env answers = Inr (Next, answers, [])"
| "ask_questions idx (q # qs) env answers =
     (case ask_question idx q (env idx) answers of
        Inl e \<Rightarrow> Inl e
      | Inr (Returned, answers', eff) \<Rightarrow> Inr (Returned, answers', eff)
      | Inr (Next, answers', eff) \<Rightarrow>
          (case ask_questions (Suc idx) qs env answers' of
             Inl e \<Rightarrow> Inl e
           | Inr (fl, answers'', eff') \<Rightarrow> Inr (fl, answers'', eff @ eff')))"

text \<open>
  The platform during one run of the handler: whether the first direct message (the list
  of the questions) raises, and the outcome of each question.
\<close>

record platform =
  intro_raises :: "exn option"
  per_question :: "nat \<Rightarrow> outcome"

text \<open>
  \<open>on_application_applied\<close> up to the end of the loop over the questions. The response
  starts with no answers. The result \<open>Next\<close> stands for the loop having run to its end,
  after which the handler posts and stores the response; that part is not modelled.
\<close>

definition on_application_applied :: "question list \<Rightarrow> platform \<Rightarrow> exn + progress" where
  "on_application_applied questions pf =
     (if questions = []
      then Inr (Returned, [],
             [FollowupSend (lit ''There are no questions configured for this application!'')])
      else (case intro_raises pf of
              Some e \<Rightarrow>
                if exn_cls e = Forbidden_class
                then Inr (Returned, [],
                       [SendIntro,
                        FollowupSend (lit ''I failed to send you a dm, please check your dm settings.'')])
                else if exn_cls e = ValueError_class \<or> exn_cls e = TypeError_class
                        \<or> isinstance_HTTPException e
                then Inr (Returned, [],
                       [SendIntro, FollowupSend (lit ''Something went wrong, please try again later!'')])
                else Inl e
            | None \<Rightarrow>
                (case ask_questions 0 questions (per_question pf) [] of
                   Inl e \<Rightarrow> Inl e
                 | Inr (fl, answers, eff) \<Rightarrow> Inr (fl, answers, SendIntro # eff))))"


section \<open>The template engine\<close>

text \<open>
  \<open>engine.process\<close> belongs to the TagScriptEngine library (\<open>tse.Interpreter\<close>),
  whose code is not among the sources: only its callers are. Every definition of this
  section stands for a part of that library and follows the description of the engine in
  the specification (its sections 3, 4, 6 and 7). The block catalogue, the process-wide
  adapters and the nesting bound are parameters, since the specification leaves them to
  the dialect in use. The markers are the conventional ones: \<open>{\<close> (123), \<open>}\<close> (125),
  \<open>(\<close> (40), \<open>)\<close> (41) and \<open>:\<close> (58).
\<close>

text \<open>
  Modelled from the spec: the nodes the parser produces (section 4.1), "each node is
  either literal text or block (name, parameter-span-or-absent, payload-span-or-absent)".
  A block node holds, in this order, the original bracketed text (which is what an
  unknown name renders as), the name, the parameter span and the payload span.
\<close>

datatype node =
    Literal pystr
  | BlockNode pystr pystr "pystr option" "pystr option"

text \<open>
  Modelled from the spec: a run of literal text as a node of the parser's output
  (section 4.1); an empty run gives no node.
\<close>

definition literal_node :: "pystr \<Rightarrow> node list" where
  "literal_node t = (if t = [] then [] else [Literal t])"

text \<open>
  Modelled from the spec: the end of the \<open>(parameter)\<close> segment (section 4.1). The
  parameter "may contain further nested block expressions" and is "captured as raw
  (unparsed) span": the closing parenthesis is the first one outside nested brackets.
\<close>

fun split_parameter :: "nat \<Rightarrow> pystr \<Rightarrow> pystr \<Rightarrow> (pystr \<times> pystr) option" where
  "split_parameter depth acc [] = None"
| "split_parameter depth acc (c # cs) =
     (if c = 41 \<and> depth = 0 then Some (acc, cs)
      else if c = 123 then split_parameter (Suc depth) (acc @ [c]) cs
      else if c = 125 then split_parameter (depth - 1) (acc @ [c]) cs
      else split_parameter depth (acc @ [c]) cs)"

text \<open>
  Modelled from the spec: the inside of a block expression (section 4.1), a name "with
  an optional (parameter) segment immediately after the block name and an optional
  :payload segment after the parameter (or directly after the name if no parameter)".
  Text that does not have this shape gives \<open>None\<close>.
\<close>

definition parse_verb :: "pystr \<Rightarrow> (pystr \<times> pystr option \<times> pystr option) option" where
  "parse_verb inner =
     (let nm = takeWhile (\<lambda>c. c \<noteq> 40 \<and> c \<noteq> 58) inner;
          rest = dropWhile (\<lambda>c. c \<noteq> 40 \<and> c \<noteq> 58) inner
      in case rest of
           [] \<Rightarrow> Some (nm, None, None)
         | c # r \<Rightarrow>
             if c = 58 then Some (nm, None, Some r)
             else (case split_parameter 0 [] r of
                     None \<Rightarrow> None
                   | Some (p, after) \<Rightarrow>
                       (case after of
                          [] \<Rightarrow> Some (nm, Some p, None)
                        | c' # q \<Rightarrow> if c' = 58 then Some (nm, Some p, Some q) else None)))"

text \<open>
  Modelled from the spec: the node of one bracketed expression (section 4.1). The parser
  "never throws for malformed user input": an expression whose inside is malformed stays
  literal text.
\<close>

definition block_node :: "pystr \<Rightarrow> node" where
  "block_node inner =
     (case parse_verb inner of
        None \<Rightarrow> Literal (123 # inner @ [125])
      | Some (nm, p, q) \<Rightarrow> BlockNode (123 # inner @ [125]) nm p q)"

text \<open>
  Modelled from the spec: the parser's scan (section 4.1). Outside a block it collects
  literal text; inside it counts nested start and end markers, "so that a payload itself
  containing {...} is captured whole". At the end of the input an open block is
  unterminated: "falls back to treating the unmatched start marker and following text as
  literal text".
\<close>

fun scan :: "pystr \<Rightarrow> node list \<Rightarrow> pystr \<Rightarrow> (nat \<times> pystr) option \<Rightarrow> node list" where
  "scan [] nodes run None = nodes @ literal_node run"
| "scan [] nodes run (Some (depth, inner)) = nodes @ [Literal (run @ 123 # inner)]"
| "scan (c # cs) nodes run None =
     (if c = 123 then scan cs nodes run (Some (0, []))
      else scan cs nodes (run @ [c]) None)"
| "scan (c # cs) nodes run (Some (depth, inner)) =
     (if c = 125 \<and> depth = 0
      then scan cs (nodes @ literal_node run @ [block_node inner]) [] None
      else if c = 125 then scan cs nodes run (Some (depth - 1, inner @ [c]))
      else if c = 123 then scan cs nodes run (Some (Suc depth, inner @ [c]))
      else scan cs nodes run (Some (depth, inner @ [c])))"

text \<open>
  Modelled from the spec: the parser of the engine library, absent from the sources
  (section 4.1), from "arbitrary string, which may be empty" to "an ordered sequence of
  nodes".
\<close>

definition parse :: "pystr \<Rightarrow> node list" where
  "parse template = scan template [] [] None"

text \<open>
  Modelled from the spec: the adapter capability contract (section 6),
  \<open>resolve(parameter: string|absent) -> string\<close>.
\<close>

type_synonym adapter = "pystr option \<Rightarrow> pystr"

text \<open>
  Modelled from the spec: the evaluation context of one \<open>process\<close> call (sections 4.2
  and 5): the adapters bound for this call, the actions set so far, and the adapters
  referenced so far.
\<close>

record 'a eval_ctx =
  ctx_adapters :: "pystr \<rightharpoonup> adapter"
  ctx_actions :: "pystr \<rightharpoonup> 'a"
  ctx_resolved :: "pystr \<rightharpoonup> adapter"

text \<open>
  Modelled from the spec: the result of a block (section 6),
  \<open>BlockResult{ text: string|absent, action: (name,value)|absent, consumed: bool }\<close>.
\<close>

record 'a BlockResult =
  result_text :: "pystr option"
  result_action :: "(pystr \<times> 'a) option"
  result_consumed :: bool

text \<open>
  Modelled from the spec: a block (sections 3 and 6 and the design notes): its name, the
  flag "whether the evaluator should pre-resolve the payload", and
  \<open>execute(parameter, payload, context)\<close>, which is also given the resolver of spans
  that a lazy block invokes "on the branch they choose". The context is passed and
  returned, so that the assignment block can bind a name "for the remainder of the
  current evaluation".
\<close>

record 'a Block =
  block_name :: pystr
  eager :: bool
  execute :: "pystr option \<Rightarrow> pystr option \<Rightarrow> 'a eval_ctx
                \<Rightarrow> ('a eval_ctx \<Rightarrow> pystr \<Rightarrow> pystr \<times> 'a eval_ctx)
                \<Rightarrow> 'a BlockResult \<times> 'a eval_ctx"

text \<open>
  Modelled from the spec: the engine as configured at startup (sections 3, 4.3 and 9):
  the block registry, the process-wide default adapters and the maximum nesting depth.
\<close>

record 'a engine =
  registry :: "'a Block list"
  default_adapters :: "pystr \<rightharpoonup> adapter"
  max_depth :: nat

text \<open>
  Modelled from the spec: "Block names are case-insensitive" (section 3). The
  comparison folds the letters A to Z.
\<close>

definition lower_ascii :: "nat \<Rightarrow> nat" where
  "lower_ascii c = (if 65 \<le> c \<and> c \<le> 90 then c + 32 else c)"

text \<open>Modelled from the spec: the lookup of a block by name in the registry (section 4.3).\<close>

definition find_block :: "'a Block list \<Rightarrow> pystr \<Rightarrow> 'a Block option" where
  "find_block reg nm =
     find (\<lambda>b. map lower_ascii (block_name b) = map lower_ascii nm) reg"

text \<open>
  Modelled from the spec: a block's execution may "set or overwrite a named entry in the
  actions mapping" (section 4.2), with "last write wins".
\<close>

definition set_action :: "(pystr \<times> 'a) option \<Rightarrow> 'a eval_ctx \<Rightarrow> 'a eval_ctx" where
  "set_action a ctx =
     (case a of
        None \<Rightarrow> ctx
      | Some (k, v) \<Rightarrow> ctx\<lparr>ctx_actions := (ctx_actions ctx)(k \<mapsto> v)\<rparr>)"

text \<open>
  Modelled from the spec: the evaluator of the engine library, absent from the sources
  (section 4.2). \<open>eval_nodes\<close> walks a node
  sequence from left to right; \<open>eval_node\<close> handles one node and says whether the rest
  of the sequence is skipped; \<open>resolve_span\<close> resolves a nested span (parse, then
  evaluate) one level deeper, and \<open>resolve_opt\<close> a span that may be absent. The
  number is the nesting depth still available: at depth 0 a nested span is not resolved
  but aborted, and the block around it renders as its literal text ("exceeding the bound
  aborts only the offending sub-expression (renders as literal/empty) rather than
  aborting the whole process call"). A literal node is "appended verbatim". For a block
  node the payload (if the block is eager) and the parameter are resolved first; a name
  in the registry executes that block, a name bound to an adapter invokes the adapter,
  and "if no block or adapter matches the referenced name, the node is left as literal
  text reproducing the original bracketed expression unchanged". A lazy block that
  reports \<open>consumed\<close> ends the sequence it stands in.
\<close>

function eval_nodes ::
    "'a Block list \<Rightarrow> nat \<Rightarrow> 'a eval_ctx \<Rightarrow> node list \<Rightarrow> exn + (pystr \<times> 'a eval_ctx)"
  and eval_node ::
    "'a Block list \<Rightarrow> nat \<Rightarrow> 'a eval_ctx \<Rightarrow> node \<Rightarrow> exn + (pystr \<times> 'a eval_ctx \<times> bool)"
  and resolve_opt ::
    "'a Block list \<Rightarrow> nat \<Rightarrow> 'a eval_ctx \<Rightarrow> pystr option \<Rightarrow> exn + (pystr option \<times> 'a eval_ctx)"
  and resolve_span ::
    "'a Block list \<Rightarrow> nat \<Rightarrow> 'a eval_ctx \<Rightarrow> pystr \<Rightarrow> exn + (pystr \<times> 'a eval_ctx)"
where
  "eval_nodes reg d ctx [] = Inr ([], ctx)"
| "eval_nodes reg d ctx (n # ns) =
     (case eval_node reg d ctx n of
        Inl e \<Rightarrow> Inl e
      | Inr (out, ctx', stop) \<Rightarrow>
          if stop then Inr (out, ctx')
          else (case eval_nodes reg d ctx' ns of
                  Inl e \<Rightarrow> Inl e
                | Inr (rest, ctx'') \<Rightarrow> Inr (out @ rest, ctx'')))"
| "eval_node reg d ctx (Literal t) = Inr (t, ctx, False)"
| "eval_node reg d ctx (BlockNode original nm p q) =
     (case find_block reg nm of
        Some blk \<Rightarrow>
          (case resolve_opt reg d ctx (if eager blk then q else None) of
             Inl e \<Rightarrow> Inr (original, ctx, False)
           | Inr (q', ctx1) \<Rightarrow>
               (case resolve_opt reg d ctx1 p of
                  Inl e \<Rightarrow> Inr (original, ctx, False)
                | Inr (p', ctx2) \<Rightarrow>
                    (case execute blk p' (if eager blk then q' else q) ctx2
                            (\<lambda>c s. case resolve_span reg d c s of
                                      Inl e \<Rightarrow> (s, c)
                                    | Inr r \<Rightarrow> r) of
                       (res, ctx3) \<Rightarrow>
                         Inr (case result_text res of None \<Rightarrow> [] | Some t \<Rightarrow> t,
                              set_action (result_action res) ctx3,
                              \<not> eager blk \<and> result_consumed res))))
      | None \<Rightarrow>
          (case ctx_adapters ctx nm of
             Some ad \<Rightarrow>
               (case resolve_opt reg d ctx p of
                  Inl e \<Rightarrow> Inr (original, ctx, False)
                | Inr (p', ctx1) \<Rightarrow>
                    Inr (ad p', ctx1\<lparr>ctx_resolved := (ctx_resolved ctx1)(nm \<mapsto> ad)\<rparr>, False))
           | None \<Rightarrow> Inr (original, ctx, False)))"
| "resolve_opt reg d ctx None = Inr (None, ctx)"
| "resolve_opt reg d ctx (Some s) =
     (case resolve_span reg d ctx s of
        Inl e \<Rightarrow> Inl e
      | Inr (t, ctx') \<Rightarrow> Inr (Some t, ctx'))"
| "resolve_span reg 0 ctx s =
     Inl (Exn RecursionError_class (lit ''maximum nesting depth exceeded''))"
| "resolve_span reg (Suc d) ctx s = eval_nodes reg d ctx (parse s)"
  by pat_completeness auto
termination
  by (relation "measures
        [\<lambda>x. case x of
                Inl (Inl (reg, d, ctx, ns)) \<Rightarrow> d
              | Inl (Inr (reg, d, ctx, n)) \<Rightarrow> d
              | Inr (Inl (reg, d, ctx, p)) \<Rightarrow> d
              | Inr (Inr (reg, d, ctx, s)) \<Rightarrow> d,
         \<lambda>x. case x of
                Inl (Inl (reg, d, ctx, ns)) \<Rightarrow> 3 + length ns
              | Inl (Inr (reg, d, ctx, n)) \<Rightarrow> 2
              | Inr (Inl (reg, d, ctx, p)) \<Rightarrow> 1
              | Inr (Inr (reg, d, ctx, s)) \<Rightarrow> 0]")
    auto

text \<open>
  Modelled from the spec: \<open>Interpreter.process\<close> of the engine library, absent from the
  sources; the sole entry point (section 6),
  \<open>process(template, seed_variables) -> Response\<close>. The seed variables are "merged
  over process-wide default adapters, seed wins on name collision"; the template is
  parsed once and evaluated with the whole nesting depth available; the result is the
  body, the actions and the referenced variables.
\<close>

definition process :: "'a engine \<Rightarrow> pystr \<Rightarrow> (pystr \<rightharpoonup> adapter) \<Rightarrow> exn + ('a, adapter) Response" where
  "process eng template seed_variables =
     (case eval_nodes (registry eng) (max_depth eng)
             \<lparr>ctx_adapters = default_adapters eng ++ seed_variables,
              ctx_actions = Map.empty, ctx_resolved = Map.empty\<rparr>
             (parse template) of
        Inl e \<Rightarrow> Inl e
      | Inr (out, ctx) \<Rightarrow>
          Inr \<lparr>body = Some out, actions = ctx_actions ctx, variables = ctx_resolved ctx\<rparr>)"


section \<open>Properties\<close>

subsection \<open>The character limit and its error\<close>

text \<open>
  C4. The template source length limit is 10,000, and for every limit and length the
  message of \<open>TagCharacterLimitReached(limit, length)\<close> is
  "TagScript cannot be longer than <limit> (**<length>**)." with both numbers humanized.
\<close>

theorem tag_character_limit_message:
  "TAGSCRIPT_LIMIT = 10000 \<and>
   exn_str (TagCharacterLimitReached humanize_number limit n) =
     lit ''TagScript cannot be longer than '' @ humanize_number limit @ lit '' (**''
       @ humanize_number n @ lit ''**).'' \<and>
   isinstance_TagError (TagCharacterLimitReached humanize_number limit n)"
  by (simp add: TAGSCRIPT_LIMIT_def TagCharacterLimitReached_def)

subsection \<open>Validation before processing\<close>

text \<open>
  C5. For every argument, \<open>TagscriptConverter.convert\<close> runs the validation and makes
  no call of the engine: when the validation returns, the argument comes back unchanged;
  when it raises a \<open>TagError\<close>, \<open>convert\<close> raises \<open>BadArgument\<close> with the string
  of that error as its message; and an argument is only ever returned after the
  validation has passed.
\<close>

theorem convert_validates_first:
  "(\<forall>r. validate_tagscript argument = Inr r \<longrightarrow>
      TagscriptConverter_convert validate_tagscript argument = Inr argument) \<and>
   (\<forall>e. validate_tagscript argument = Inl e \<and> isinstance_TagError e \<longrightarrow>
      TagscriptConverter_convert validate_tagscript argument
        = Inl (Exn BadArgument_class (exn_str e))) \<and>
   (\<forall>s. TagscriptConverter_convert validate_tagscript argument = Inr s \<longrightarrow>
      s = argument \<and> (\<exists>r. validate_tagscript argument = Inr r))"
  by (auto simp: TagscriptConverter_convert_def split: sum.splits if_splits)

theorem convert_validates_first_witness:
  "TagscriptConverter_convert
     (\<lambda>s. if int (length s) > TAGSCRIPT_LIMIT
          then Inl (TagCharacterLimitReached str_int TAGSCRIPT_LIMIT (int (length s)))
          else Inr True)
     (lit ''{member(mention)}'') = Inr (lit ''{member(mention)}'') \<and>
   TagscriptConverter_convert
     (\<lambda>s. if int (length s) > TAGSCRIPT_LIMIT
          then Inl (TagCharacterLimitReached str_int TAGSCRIPT_LIMIT (int (length s)))
          else Inr True)
     (replicate 10001 97)
     = Inl (Exn BadArgument_class (lit ''TagScript cannot be longer than 10000 (**10001**).''))"
proof -
  let ?v = "\<lambda>s::pystr. if int (length s) > TAGSCRIPT_LIMIT
          then Inl (TagCharacterLimitReached str_int TAGSCRIPT_LIMIT (int (length s)))
          else (Inr True :: exn + bool)"
  have short: "?v (lit ''{member(mention)}'') = Inr True"
    by (simp add: TAGSCRIPT_LIMIT_def lit_def)
  have long: "?v (replicate 10001 97)
      = Inl (TagCharacterLimitReached str_int TAGSCRIPT_LIMIT 10001)"
    by (simp add: TAGSCRIPT_LIMIT_def)
  have msg: "exn_str (TagCharacterLimitReached str_int TAGSCRIPT_LIMIT 10001)
      = lit ''TagScript cannot be longer than 10000 (**10001**).''"
    by (simp add: TagCharacterLimitReached_def TAGSCRIPT_LIMIT_def str_int_def lit_def)
  have tag: "isinstance_TagError (TagCharacterLimitReached str_int TAGSCRIPT_LIMIT 10001)"
    by (simp add: TagCharacterLimitReached_def)
  from convert_validates_first [of ?v "lit ''{member(mention)}''"] short
  have a: "TagscriptConverter_convert ?v (lit ''{member(mention)}'')
      = Inr (lit ''{member(mention)}'')"
    by blast
  from convert_validates_first [of ?v "replicate 10001 97"] long tag
  have "TagscriptConverter_convert ?v (replicate 10001 97)
      = Inl (Exn BadArgument_class
              (exn_str (TagCharacterLimitReached str_int TAGSCRIPT_LIMIT 10001)))"
    by blast
  with a msg show ?thesis by simp
qed

subsection \<open>What the callers do with the engine's output\<close>

text \<open>
  C2. Whenever the engine's output has a non-empty body, \<open>process_tagscript\<close> sets
  \<open>kwargs["content"]\<close> to exactly the first 2000 characters of that body, and
  \<open>tag_run\<close> computes the same content; the content has at most 2000 characters.
  The body itself is the engine's, whole: the cut is made by the callers, on a body of
  any length.
\<close>

theorem callers_truncate_body:
  assumes "engine_process content seed = Inr output"
    and "body output = Some b"
    and "b \<noteq> []"
  shows "\<exists>kwargs. process_tagscript engine_process truthy content seed = Inr kwargs \<and>
           kwargs (lit ''content'') = Some (Str (take 2000 b)) \<and>
           tag_run_content output = Some (take 2000 b) \<and>
           length (take 2000 b) \<le> 2000"
proof -
  have keys: "lit ''embed'' \<noteq> lit ''content''"
    by (simp add: lit_def)
  show ?thesis
    using assms keys
    by (simp add: process_tagscript_def tag_run_content_def Let_def split: option.splits)
qed

theorem callers_truncate_body_witness:
  "\<exists>kwargs.
     process_tagscript
       (\<lambda>c s. Inr \<lparr>body = Some (replicate 2001 97), actions = Map.empty,
                     variables = (Map.empty :: pystr \<rightharpoonup> unit)\<rparr>)
       (\<lambda>a::unit. True) (lit ''{long}'') () = Inr kwargs \<and>
     kwargs (lit ''content'') = Some (Str (replicate 2000 97)) \<and>
     tag_run_content \<lparr>body = Some (replicate 2001 (97::nat)), actions = (Map.empty :: pystr \<rightharpoonup> unit),
       variables = (Map.empty :: pystr \<rightharpoonup> unit)\<rparr>
       = Some (replicate 2000 97) \<and>
     length (replicate 2001 (97::nat)) = 2001"
proof -
  let ?out = "\<lparr>body = Some (replicate 2001 (97::nat)), actions = (Map.empty :: pystr \<rightharpoonup> unit),
       variables = (Map.empty :: pystr \<rightharpoonup> unit)\<rparr>"
  have ne: "replicate 2001 (97::nat) \<noteq> []"
    by simp
  have cut: "take 2000 (replicate 2001 (97::nat)) = replicate 2000 97"
    by simp
  from callers_truncate_body [of "\<lambda>c s. Inr ?out" "lit ''{long}''" "()" ?out
      "replicate 2001 97" "\<lambda>a. True"] ne
  show ?thesis
    unfolding cut by simp
qed

text \<open>
  C3. Whenever the engine's output has a falsy body (\<open>None\<close> or the empty string) and
  no "embed" action, \<open>process_tagscript\<close> returns the empty dict: it raises nothing,
  and neither "content" nor "embed" is a key.
\<close>

theorem process_tagscript_empty_result:
  assumes "engine_process content seed = Inr output"
    and "body output = None \<or> body output = Some []"
    and "actions output (lit ''embed'') = None"
  shows "process_tagscript engine_process truthy content seed = Inr Map.empty"
  using assms
  by (auto simp: process_tagscript_def Let_def)

theorem process_tagscript_empty_result_witness:
  "process_tagscript
     (\<lambda>c s. Inr \<lparr>body = Some [], actions = Map.empty,
                   variables = (Map.empty :: pystr \<rightharpoonup> unit)\<rparr>)
     (\<lambda>a::unit. True) [] () = Inr Map.empty \<and>
   process_tagscript
     (\<lambda>c s. Inr \<lparr>body = None, actions = Map.empty,
                   variables = (Map.empty :: pystr \<rightharpoonup> unit)\<rparr>)
     (\<lambda>a::unit. True) (lit ''{=(x):1}'') () = Inr Map.empty"
  using process_tagscript_empty_result
      [of "\<lambda>c s. Inr \<lparr>body = Some [], actions = Map.empty,
                        variables = (Map.empty :: pystr \<rightharpoonup> unit)\<rparr>" "[]" "()"
          "\<lparr>body = Some [], actions = Map.empty, variables = Map.empty\<rparr>" "\<lambda>a::unit. True"]
    process_tagscript_empty_result
      [of "\<lambda>c s. Inr \<lparr>body = None, actions = Map.empty,
                        variables = (Map.empty :: pystr \<rightharpoonup> unit)\<rparr>" "lit ''{=(x):1}''" "()"
          "\<lparr>body = None, actions = Map.empty, variables = Map.empty\<rparr>" "\<lambda>a::unit. True"]
  by simp

subsection \<open>The tag commands\<close>

text \<open>
  C8. For every message with at least one attachment, the precondition of
  \<open>tag_restore\<close> and of \<open>tag_global_restore\<close> is false whatever the file names are,
  so \<open>UserFeedbackCheckFailure\<close> is not raised by the check, and both commands go on
  to read and parse the first attachment.
\<close>

theorem restore_check_ignores_filename:
  "backup_precondition expected (a # rest) = Inr False \<and>
   tag_restore read loads (Some guild_id) (a # rest)
     = (case read a of Inl e \<Rightarrow> Inl e | Inr raw \<Rightarrow> loads raw) \<and>
   tag_global_restore read loads (a # rest)
     = (case read a of Inl e \<Rightarrow> Inl e | Inr raw \<Rightarrow> loads raw)"
  by (simp add: backup_precondition_def tag_restore_def tag_global_restore_def
      load_backup_def getitem0_def)

theorem restore_check_ignores_filename_witness:
  "filename \<lparr>filename = lit ''notes.txt'', payload = [123, 125]\<rparr> \<noteq> lit ''global-tag-backup.json'' \<and>
   tag_global_restore (\<lambda>a. Inr (payload a)) (\<lambda>raw. Inr (length raw))
     [\<lparr>filename = lit ''notes.txt'', payload = [123, 125]\<rparr>] = Inr 2 \<and>
   tag_restore (\<lambda>a. Inr (payload a)) (\<lambda>raw. Inr (length raw)) (Some 42)
     [\<lparr>filename = lit ''notes.txt'', payload = [123, 125]\<rparr>] = Inr 2"
  using restore_check_ignores_filename
      [of "lit ''global-tag-backup.json''" "\<lparr>filename = lit ''notes.txt'', payload = [123, 125]\<rparr>"
          "[]" "\<lambda>a. Inr (payload a)" "\<lambda>raw. Inr (length raw)" 42]
  by (simp add: lit_def)

text \<open>
  Without any attachment the same check does not reach its own error either: the right
  operand of \<open>and\<close> indexes the empty list.
\<close>

lemma restore_without_attachment:
  "tag_restore read loads (Some guild_id) [] = Inl (Exn IndexError_class (lit ''list index out of range'')) \<and>
   tag_global_restore read loads [] = Inl (Exn IndexError_class (lit ''list index out of range''))"
  by (simp add: tag_restore_def tag_global_restore_def backup_precondition_def getitem0_def)

text \<open>
  C9. For every invocation of \<open>invoketag\<close>, the flag after \<open>response = response or True\<close>
  is \<open>True\<close>, also when \<open>False\<close> was passed; so whenever the tag lookup raises
  \<open>BadArgument\<close>, the error is sent.
\<close>

theorem invoketag_always_responds:
  "py_or response (Some True) = Some True \<and>
   (\<forall>e. tag_convert tag_name = Inl e \<and> isinstance_BadArgument e \<longrightarrow>
      invoketag tag_convert response tag_name args = Inr [CtxSend e])"
  by (simp add: py_or_def invoketag_def Let_def)

theorem invoketag_always_responds_witness:
  "py_or (Some False) (Some True) = Some True \<and>
   invoketag (\<lambda>n. Inl (Exn BadArgument_class (lit ''Tag not found.'')) :: exn + unit)
     (Some False) (lit ''missing'') []
     = Inr [CtxSend (Exn BadArgument_class (lit ''Tag not found.''))]"
  using invoketag_always_responds
      [of "Some False" "\<lambda>n. Inl (Exn BadArgument_class (lit ''Tag not found.'')) :: exn + unit"
          "lit ''missing''" "[]"]
  by simp

lemma generate_tag_list_loop_eq:
  "generate_tag_list_loop esc tags als ds =
     (als @ concat (map aliases tags),
      ds @ map (\<lambda>tag. lit ''`'' @ tag_str tag @ lit ''` - ''
                        @ esc (tagscript_preview (tagscript tag))) tags)"
  by (induction tags arbitrary: als ds) (simp_all add: tagscript_preview_def Let_def)

text \<open>
  C10. For every list of tags, the description of each tag is built from the preview
  of its tagscript (newlines replaced by spaces, then the first 20 characters and three
  dots when longer than 23 characters, else the whole text), with the markdown escaping
  applied to the preview, and the aliases returned are the aliases of all tags, joined
  in input order.
\<close>

theorem generate_tag_list_previews:
  "generate_tag_list esc tags (lit ''aliases'') = Some (concat (map aliases tags)) \<and>
   generate_tag_list esc tags (lit ''description'') =
     Some (map (\<lambda>tag. lit ''`'' @ tag_str tag @ lit ''` - ''
                        @ esc (tagscript_preview (tagscript tag))) tags) \<and>
   (\<forall>s. tagscript_preview s =
      (if length s > 23 then take 20 (replace_char 10 32 s) @ lit ''...''
       else replace_char 10 32 s))"
proof -
  have keys: "lit ''aliases'' \<noteq> lit ''description''"
    by (simp add: lit_def)
  show ?thesis
    using keys
    by (simp add: generate_tag_list_def generate_tag_list_loop_eq tagscript_preview_def
        replace_char_def)
qed

theorem generate_tag_list_previews_witness:
  "generate_tag_list (\<lambda>s. s)
     [\<lparr>aliases = [lit ''g'', lit ''hello''],
       tagscript = lit ''Hello'' @ [10] @ lit ''world, how are you'', tag_str = lit ''greet''\<rparr>,
      \<lparr>aliases = [lit ''h''], tagscript = lit ''hi'', tag_str = lit ''hi''\<rparr>]
     (lit ''description'')
     = Some [lit ''`greet` - Hello world, how are...'', lit ''`hi` - hi''] \<and>
   generate_tag_list (\<lambda>s. s)
     [\<lparr>aliases = [lit ''g'', lit ''hello''],
       tagscript = lit ''Hello'' @ [10] @ lit ''world, how are you'', tag_str = lit ''greet''\<rparr>,
      \<lparr>aliases = [lit ''h''], tagscript = lit ''hi'', tag_str = lit ''hi''\<rparr>]
     (lit ''aliases'')
     = Some [lit ''g'', lit ''hello'', lit ''h'']"
  using generate_tag_list_previews
      [of "\<lambda>s. s"
          "[\<lparr>aliases = [lit ''g'', lit ''hello''],
             tagscript = lit ''Hello'' @ [10] @ lit ''world, how are you'', tag_str = lit ''greet''\<rparr>,
            \<lparr>aliases = [lit ''h''], tagscript = lit ''hi'', tag_str = lit ''hi''\<rparr>]"]
  by (simp add: replace_char_def lit_def)

subsection \<open>The applications flow\<close>

lemma ask_questions_append:
  "ask_questions idx qs env answers = Inr (Next, answers', eff) \<Longrightarrow>
   ask_questions idx (qs @ rest) env answers =
     (case ask_questions (idx + length qs) rest env answers' of
        Inl e \<Rightarrow> Inl e
      | Inr (fl, answers'', eff') \<Rightarrow> Inr (fl, answers'', eff @ eff'))"
proof (induction qs arbitrary: idx answers eff)
  case Nil
  then show ?case
    by (simp split: sum.splits prod.splits)
next
  case (Cons q qs)
  from Cons.prems obtain a1 e1 e2 where
    step: "ask_question idx q (env idx) answers = Inr (Next, a1, e1)" and
    tail: "ask_questions (Suc idx) qs env a1 = Inr (Next, answers', e2)" and
    eff: "eff = e1 @ e2"
    by (auto split: sum.splits prod.splits flow.splits)
  from Cons.IH [OF tail] step eff show ?case
    by (simp split: sum.splits prod.splits)
qed

text \<open>
  C7. In the text branch the reply is awaited with a timeout of 300 seconds, set by the
  handler. When the questions before have been answered, the question is a text question
  that could be sent, and the wait times out, the handler returns: its last call sends
  "Application timed out.", and the response in progress holds exactly the answers it
  held before this question.
\<close>

theorem text_question_timeout_returns:
  assumes "questions = qs @ q # rest"
    and "intro_raises pf = None"
    and "ask_questions 0 qs (per_question pf) [] = Inr (Next, answers, eff)"
    and "q_type q = Text"
    and "ask_raises (per_question pf (length qs)) = None"
    and "reply (per_question pf (length qs)) = None"
  shows "on_application_applied questions pf =
           Inr (Returned, answers,
                SendIntro # eff
                  @ [SendQuestion (length qs), WaitForMessage 300, ViewOnTimeout,
                     UserSend (lit ''Application timed out while waiting for your response.''),
                     FollowupSend (lit ''Application timed out.'')])"
proof -
  have body: "ask_question (length qs) q (per_question pf (length qs)) answers =
      Inr (Returned, answers,
           [SendQuestion (length qs), WaitForMessage 300, ViewOnTimeout,
            UserSend (lit ''Application timed out while waiting for your response.''),
            FollowupSend (lit ''Application timed out.'')])"
    using assms(4-6) by (simp add: ask_question_def)
  have "ask_questions 0 (qs @ q # rest) (per_question pf) [] =
      Inr (Returned, answers,
           eff @ [SendQuestion (length qs), WaitForMessage 300, ViewOnTimeout,
                  UserSend (lit ''Application timed out while waiting for your response.''),
                  FollowupSend (lit ''Application timed out.'')])"
    using ask_questions_append [OF assms(3), of "q # rest"] body by simp
  with assms(1,2) show ?thesis
    by (simp add: on_application_applied_def)
qed

theorem text_question_timeout_returns_witness:
  "on_application_applied
     [\<lparr>q_text = lit ''Name?'', q_type = Text, q_required = True, q_choices = []\<rparr>,
      \<lparr>q_text = lit ''Why?'', q_type = Text, q_required = True, q_choices = []\<rparr>]
     \<lparr>intro_raises = None,
      per_question = (\<lambda>i.
        \<lparr>ask_raises = None, reply = (if i = 0 then Some (lit ''Alice'') else None),
         cancel = False, skip = False, wait_timed_out = False, choice_answer = None,
         confirm_result = None, echo_raises = None\<rparr>)\<rparr>
   = Inr (Returned,
          [\<lparr>a_question = lit ''Name?'', a_type = Text, a_answer = lit ''Alice''\<rparr>],
          [SendIntro,
           SendQuestion 0, WaitForMessage 300, ViewOnTimeout, EchoAnswer 1 (lit ''Alice''),
           SendQuestion 1, WaitForMessage 300, ViewOnTimeout,
           UserSend (lit ''Application timed out while waiting for your response.''),
           FollowupSend (lit ''Application timed out.'')])"
proof -
  let ?q1 = "\<lparr>q_text = lit ''Name?'', q_type = Text, q_required = True, q_choices = []\<rparr>"
  let ?q2 = "\<lparr>q_text = lit ''Why?'', q_type = Text, q_required = True, q_choices = []\<rparr>"
  let ?pf = "\<lparr>intro_raises = None,
      per_question = (\<lambda>i::nat.
        \<lparr>ask_raises = None, reply = (if i = 0 then Some (lit ''Alice'') else None),
         cancel = False, skip = False, wait_timed_out = False, choice_answer = None,
         confirm_result = None, echo_raises = None\<rparr>)\<rparr>"
  have first: "ask_questions 0 [?q1] (per_question ?pf) [] =
      Inr (Next, [\<lparr>a_question = lit ''Name?'', a_type = Text, a_answer = lit ''Alice''\<rparr>],
           [SendQuestion 0, WaitForMessage 300, ViewOnTimeout, EchoAnswer 1 (lit ''Alice'')])"
    by (simp add: ask_question_def record_answer_def lit_def)
  show ?thesis
    using text_question_timeout_returns [of "[?q1, ?q2]" "[?q1]" ?q2 "[]" ?pf, OF _ _ first]
    by simp
qed

subsection \<open>The engine as the specification describes it\<close>

lemma eval_node_returns: "\<exists>r. eval_node reg d ctx n = Inr r"
  by (cases n) (auto split: option.splits sum.splits prod.splits)

lemma eval_nodes_returns: "\<exists>r. eval_nodes reg d ctx ns = Inr r"
proof (induction ns arbitrary: ctx)
  case Nil
  show ?case by simp
next
  case (Cons n ns)
  obtain out ctx' stop where node: "eval_node reg d ctx n = Inr (out, ctx', stop)"
    using eval_node_returns [of reg d ctx n] by (metis prod_cases3)
  show ?case
  proof (cases stop)
    case True
    with node show ?thesis by simp
  next
    case False
    obtain rest ctx'' where "eval_nodes reg d ctx' ns = Inr (rest, ctx'')"
      using Cons.IH [of ctx'] by (metis surj_pair)
    with node False show ?thesis by simp
  qed
qed

lemma process_returns: "\<exists>r. process eng template seed_variables = Inr r"
proof -
  obtain out ctx where
    "eval_nodes (registry eng) (max_depth eng)
       \<lparr>ctx_adapters = default_adapters eng ++ seed_variables,
        ctx_actions = Map.empty, ctx_resolved = Map.empty\<rparr>
       (parse template) = Inr (out, ctx)"
    using eval_nodes_returns by (metis surj_pair)
  then show ?thesis
    by (simp add: process_def)
qed

lemma scan_literal:
  "123 \<notin> set cs \<Longrightarrow> scan cs nodes t None = nodes @ literal_node (t @ cs)"
  by (induction cs arbitrary: t) simp_all

lemma parse_literal: "123 \<notin> set s \<Longrightarrow> parse s = literal_node s"
  by (simp add: parse_def scan_literal)

lemma eval_literal_node: "eval_nodes reg d ctx (literal_node s) = Inr (s, ctx)"
  by (simp add: literal_node_def)

text \<open>
  C1. For every template text and every seed mapping, \<open>process\<close> returns a
  \<open>Response\<close>, and so \<open>process_tagscript\<close> returns a mapping: there is no template on
  which either raises, and both are total functions, so neither fails to return.
\<close>

theorem process_tagscript_total:
  "(\<exists>r. process eng content seed_variables = Inr r) \<and>
   (\<exists>kwargs. process_tagscript (process eng) truthy content seed_variables = Inr kwargs)"
proof -
  obtain r where "process eng content seed_variables = Inr r"
    using process_returns by blast
  then show ?thesis
    by (simp add: process_tagscript_def Let_def)
qed

theorem process_tagscript_total_witness:
  "\<exists>kwargs.
     process_tagscript
       (process \<lparr>registry = ([] :: unit Block list), default_adapters = Map.empty,
                 max_depth = 0\<rparr>)
       (\<lambda>a. True) (lit ''{x} {x({x})} {open'') [lit ''x'' \<mapsto> (\<lambda>p. lit ''V'')] = Inr kwargs \<and>
     kwargs (lit ''content'') = Some (Str (lit ''V {x({x})} {open''))"
  using process_tagscript_total
      [of "\<lparr>registry = ([] :: unit Block list), default_adapters = Map.empty, max_depth = 0\<rparr>"
          "lit ''{x} {x({x})} {open''" "[lit ''x'' \<mapsto> (\<lambda>p. lit ''V'')]" "\<lambda>a. True"]
  by (simp add: process_tagscript_def process_def parse_def block_node_def parse_verb_def
      literal_node_def find_block_def lit_def Let_def)

text \<open>
  C6. For every string without the block-start marker, processing it with the empty
  seed mapping returns a \<open>Response\<close> whose body is the string itself; no action is set.
\<close>

theorem literal_passthrough:
  assumes "123 \<notin> set s"
  shows "\<exists>r. process eng s Map.empty = Inr r \<and> body r = Some s \<and> actions r = Map.empty"
  using assms
  by (simp add: process_def parse_literal eval_literal_node)

theorem literal_passthrough_witness:
  "\<exists>r. process \<lparr>registry = ([] :: unit Block list), default_adapters = Map.empty, max_depth = 0\<rparr>
          (lit ''Thanks for the boost (really): 100%}'') Map.empty = Inr r \<and>
       body r = Some (lit ''Thanks for the boost (really): 100%}'') \<and>
       actions r = Map.empty"
proof -
  have "123 \<notin> set (lit ''Thanks for the boost (really): 100%}'')"
    by (simp add: lit_def)
  then show ?thesis
    by (rule literal_passthrough)
qed

end
